theory Spec2Isabelle
  imports Complex_Main
begin

section \<open>JavaScript numbers\<close>

text \<open>
  The services compute with JavaScript numbers. A finite number is idealised as a real;
  \<open>NaN\<close> is kept, because \<open>parseFloat\<close> and \<open>parseInt\<close> produce it on upstream text
  and every comparison with it is false. The two infinities are not represented.
\<close>

datatype jsnum = NaN | Num real

fun js_gt :: "jsnum \<Rightarrow> jsnum \<Rightarrow> bool" where
  "js_gt (Num a) (Num b) = (a > b)"
| "js_gt _ _ = False"

fun js_lt :: "jsnum \<Rightarrow> jsnum \<Rightarrow> bool" where
  "js_lt (Num a) (Num b) = (a < b)"
| "js_lt _ _ = False"

fun js_add :: "jsnum \<Rightarrow> jsnum \<Rightarrow> jsnum" where
  "js_add (Num a) (Num b) = Num (a + b)"
| "js_add _ _ = NaN"

fun js_sub :: "jsnum \<Rightarrow> jsnum \<Rightarrow> jsnum" where
  "js_sub (Num a) (Num b) = Num (a - b)"
| "js_sub _ _ = NaN"

fun js_mul :: "jsnum \<Rightarrow> jsnum \<Rightarrow> jsnum" where
  "js_mul (Num a) (Num b) = Num (a * b)"
| "js_mul _ _ = NaN"

text \<open>Division is only ever applied to a non-zero literal divisor.\<close>

fun js_div :: "jsnum \<Rightarrow> jsnum \<Rightarrow> jsnum" where
  "js_div (Num a) (Num b) = (if b = 0 then NaN else Num (a / b))"
| "js_div _ _ = NaN"

fun Math_max :: "jsnum \<Rightarrow> jsnum \<Rightarrow> jsnum" where
  "Math_max (Num a) (Num b) = Num (max a b)"
| "Math_max _ _ = NaN"

fun Math_min :: "jsnum \<Rightarrow> jsnum \<Rightarrow> jsnum" where
  "Math_min (Num a) (Num b) = Num (min a b)"
| "Math_min _ _ = NaN"

fun Math_abs :: "jsnum \<Rightarrow> jsnum" where
  "Math_abs (Num a) = Num \<bar>a\<bar>"
| "Math_abs NaN = NaN"

text \<open>Truthiness of a number: \<open>0\<close> and \<open>NaN\<close> are falsy.\<close>

fun truthy_num :: "jsnum \<Rightarrow> bool" where
  "truthy_num (Num a) = (a \<noteq> 0)"
| "truthy_num NaN = False"

text \<open>\<open>x || d\<close> on an optional number (absent, \<open>null\<close> and \<open>undefined\<close> are \<open>None\<close>).\<close>

fun num_or :: "jsnum option \<Rightarrow> jsnum \<Rightarrow> jsnum" where
  "num_or None d = d"
| "num_or (Some x) d = (if truthy_num x then x else d)"

text \<open>\<open>x || d\<close> on an optional string: the empty string is falsy.\<close>

fun str_or :: "string option \<Rightarrow> string \<Rightarrow> string" where
  "str_or None d = d"
| "str_or (Some s) d = (if s = [] then d else s)"

text \<open>\<open>in_range lo hi x\<close>: \<open>x\<close> is a number between \<open>lo\<close> and \<open>hi\<close>.\<close>

fun in_range :: "real \<Rightarrow> real \<Rightarrow> jsnum \<Rightarrow> bool" where
  "in_range lo hi (Num a) = (lo \<le> a \<and> a \<le> hi)"
| "in_range lo hi NaN = False"


section \<open>Severity rules and the fire-weather index (cloudflare/worker.ts)\<close>

datatype severity = Low | Medium | High | Critical

definition calculateFireWeatherIndex :: "jsnum \<Rightarrow> jsnum \<Rightarrow> jsnum \<Rightarrow> jsnum" where
  "calculateFireWeatherIndex temp humidity precipitation =
     (let dryness = Math_max (Num 0) (js_sub (Num 100) humidity);
          heat = Math_max (Num 0) (js_sub temp (Num 20));
          dryPeriod = Math_max (Num 0) (js_sub (Num 30) precipitation)
      in Math_min (Num 100) (js_div (js_add (js_add dryness heat) dryPeriod) (Num 3)))"

definition calculateFireSeverity :: "jsnum \<Rightarrow> jsnum \<Rightarrow> severity" where
  "calculateFireSeverity frp confidence =
     (if js_gt frp (Num 50) \<and> js_gt confidence (Num 80) then Critical
      else if js_gt frp (Num 25) \<and> js_gt confidence (Num 70) then High
      else if js_gt frp (Num 10) \<and> js_gt confidence (Num 60) then Medium
      else Low)"

definition getDeforestationSeverity :: "jsnum \<Rightarrow> severity" where
  "getDeforestationSeverity alertCount =
     (if js_gt alertCount (Num 100) then Critical
      else if js_gt alertCount (Num 50) then High
      else if js_gt alertCount (Num 10) then Medium
      else Low)"


section \<open>Strings and the number parsers\<close>

text \<open>
  Strings are lists of 8-bit characters (the code units 0 to 255). \<open>split_on\<close> is
  \<open>String.prototype.split\<close> with a one-character separator, \<open>trim\<close> strips the white
  space at both ends. The white space of JavaScript within these code units is the tab,
  the line terminators, the space and the no-break space; the white space beyond code
  unit 255 does not occur in these strings.
\<close>

definition is_ws :: "char \<Rightarrow> bool" where
  "is_ws c = (of_char c \<in> {9::nat, 10, 11, 12, 13, 32, 160})"

definition is_digit :: "char \<Rightarrow> bool" where
  "is_digit c = (48 \<le> (of_char c :: nat) \<and> (of_char c :: nat) \<le> 57)"

definition digit_val :: "char \<Rightarrow> nat" where
  "digit_val c = of_char c - 48"

definition digits_val :: "string \<Rightarrow> nat" where
  "digits_val ds = foldl (\<lambda>a c. 10 * a + digit_val c) 0 ds"

definition trim :: "string \<Rightarrow> string" where
  "trim s = rev (dropWhile is_ws (rev (dropWhile is_ws s)))"

fun split_on :: "char \<Rightarrow> string \<Rightarrow> string list" where
  "split_on sep [] = [[]]"
| "split_on sep (c # cs) =
     (if c = sep then [] # split_on sep cs
      else (case split_on sep cs of x # xs \<Rightarrow> (c # x) # xs | [] \<Rightarrow> [[c]]))"

definition toUpperCase :: "string \<Rightarrow> string" where
  "toUpperCase s =
     map (\<lambda>c. if 97 \<le> (of_char c :: nat) \<and> (of_char c :: nat) \<le> 122
                then char_of ((of_char c :: nat) - 32) else c) s"

definition toLowerCase :: "string \<Rightarrow> string" where
  "toLowerCase s =
     map (\<lambda>c. if 65 \<le> (of_char c :: nat) \<and> (of_char c :: nat) \<le> 90
                then char_of ((of_char c :: nat) + 32) else c) s"

fun starts_with :: "string \<Rightarrow> string \<Rightarrow> bool" where
  "starts_with s [] = True"
| "starts_with [] (p # ps) = False"
| "starts_with (c # cs) (p # ps) = (c = p \<and> starts_with cs ps)"

fun str_includes :: "string \<Rightarrow> string \<Rightarrow> bool" where
  "str_includes [] p = (p = [])"
| "str_includes (c # cs) p = (starts_with (c # cs) p \<or> str_includes cs p)"

text \<open>An optional sign in front of a numeral: whether it is negative, and the rest.\<close>

fun take_sign :: "string \<Rightarrow> bool \<times> string" where
  "take_sign [] = (False, [])"
| "take_sign (c # r) =
     (if c = CHR ''-'' then (True, r) else if c = CHR ''+'' then (False, r) else (False, c # r))"

text \<open>\<open>parseInt(s, 10)\<close>: leading white space, a sign, then the longest run of digits.\<close>

definition parseInt :: "string \<Rightarrow> jsnum" where
  "parseInt s =
     (let (neg, u) = take_sign (dropWhile is_ws s);
          ds = takeWhile is_digit u
      in if ds = [] then NaN
         else Num (if neg then - real (digits_val ds) else real (digits_val ds)))"

text \<open>
  \<open>parseFloat(s)\<close>: leading white space, a sign, then the longest prefix that is a decimal
  literal (digits, a fraction, an exponent); \<open>NaN\<close> when there is none. The result
  is the value of the literal as a real, where JavaScript rounds it to the nearest double.
  The number model has no infinities: the literal \<open>Infinity\<close>, and a literal too
  large for a double, are outside it, and the first reads as \<open>NaN\<close> here. No property
  below evaluates \<open>parseFloat\<close> on such a text.
\<close>

definition exponent_part :: "real \<Rightarrow> string \<Rightarrow> real" where
  "exponent_part m rest =
     (case rest of
        [] \<Rightarrow> m
      | e # r \<Rightarrow>
          if e = CHR ''e'' \<or> e = CHR ''E'' then
            (let (eneg, r') = take_sign r;
                 eds = takeWhile is_digit r'
             in if eds = [] then m
                else if eneg then m / 10 ^ digits_val eds else m * 10 ^ digits_val eds)
          else m)"

definition parseFloat :: "string \<Rightarrow> jsnum" where
  "parseFloat s =
     (let (neg, u) = take_sign (dropWhile is_ws s);
          ip = takeWhile is_digit u;
          rest1 = dropWhile is_digit u;
          (fp, rest2) =
             (case rest1 of
                [] \<Rightarrow> ([], [])
              | c # r \<Rightarrow> if c = CHR ''.'' then (takeWhile is_digit r, dropWhile is_digit r)
                         else ([], rest1))
      in if ip = [] \<and> fp = [] then NaN
         else (let m = exponent_part
                         (real (digits_val ip) + real (digits_val fp) / 10 ^ length fp) rest2
               in Num (if neg then - m else m)))"

text \<open>
  \<open>Array.prototype.slice(start, end)\<close> with integer or \<open>NaN\<close> arguments: \<open>NaN\<close> is 0,
  a negative index counts from the end, and both are clipped to the length.
\<close>

definition slice_index :: "nat \<Rightarrow> jsnum \<Rightarrow> nat" where
  "slice_index len k =
     (case k of
        NaN \<Rightarrow> 0
      | Num r \<Rightarrow> (let i = (if r < 0 then \<lceil>r\<rceil> else \<lfloor>r\<rfloor>)
                  in if i < 0 then nat (max (int len + i) 0) else min (nat i) len))"

definition slice :: "jsnum \<Rightarrow> jsnum \<Rightarrow> 'a list \<Rightarrow> 'a list" where
  "slice start stop xs =
     (let a = slice_index (length xs) start;
          b = slice_index (length xs) stop
      in take (b - a) (drop a xs))"

text \<open>URL query parameters: \<open>URLSearchParams.get\<close> returns the first value of a name.\<close>

type_synonym params = "(string \<times> string) list"

definition get_param :: "params \<Rightarrow> string \<Rightarrow> string option" where
  "get_param ps name = map_of ps name"

text \<open>\<open>!s\<close> on an optional string: absent or empty.\<close>

fun falsy_str :: "string option \<Rightarrow> bool" where
  "falsy_str None = True"
| "falsy_str (Some s) = (s = [])"

definition no_mock :: "params \<Rightarrow> bool" where
  "no_mock ps = (get_param ps ''no_mock'' = Some ''1'')"

fun show_nat :: "nat \<Rightarrow> string" where
  "show_nat n = (if n < 10 then [char_of (48 + n)] else show_nat (n div 10) @ [char_of (48 + n mod 10)])"


section \<open>Canonical records\<close>

text \<open>
  The records carry the fields the rules compute with. The text fields that are printed
  from numbers and dates (\<open>id\<close>, \<open>location\<close>, \<open>description\<close>, \<open>lastSeen\<close>,
  \<open>lastUpdate\<close>, the tile URLs) and the free-form \<open>metadata\<close> are left out. A
  timestamp is the epoch time in milliseconds that \<open>new Date(timestamp).getTime()\<close> reads.
\<close>

datatype alert_type = Fire | Deforestation | Biodiversity | Weather

record forest_alert =
  a_timestamp :: int
  a_type :: alert_type
  a_severity :: severity
  a_confidence :: jsnum
  a_coordinates :: "jsnum \<times> jsnum"

datatype conservation = Stable | Declining | Critically_endangered | Recovering

datatype species_id = IdNum jsnum | IdStr string | IdUndefined

record species =
  sp_id :: species_id
  sp_name :: string
  sp_scientificName :: "string option"
  sp_status :: conservation
  sp_population :: jsnum
  sp_trend :: jsnum
  sp_habitat :: string
  sp_confidence :: jsnum
  sp_threatLevel :: jsnum
  sp_conservationStatus :: string

record forest_region =
  r_id :: string
  r_name :: string
  r_lat :: jsnum
  r_lng :: jsnum
  r_healthScore :: jsnum
  r_deforestationRate :: jsnum
  r_biodiversityIndex :: jsnum
  r_alertLevel :: severity
  r_area :: jsnum
  r_forestCover :: jsnum
  r_fireRisk :: jsnum
  r_temperature :: jsnum
  r_precipitation :: jsnum

record weather =
  w_temperature :: jsnum
  w_humidity :: jsnum
  w_precipitation :: jsnum
  w_windSpeed :: jsnum
  w_pressure :: jsnum
  w_cloudCover :: jsnum
  w_uvIndex :: jsnum
  w_fireWeatherIndex :: jsnum

record satellite =
  sat_coordinates :: "jsnum \<times> jsnum"
  sat_coverage :: jsnum
  sat_cloudCover :: jsnum
  sat_resolution :: nat
  sat_layer :: string


section \<open>Upstream payloads\<close>

text \<open>
  The upstream JSON is typed by the fields the adapters read; a field that is absent,
  \<open>null\<close> or \<open>undefined\<close> is \<open>None\<close>. A fetch either rejects with a message or replies
  with a status and a body; reading the body can itself reject (\<open>Inl\<close>).
\<close>

datatype 'b fetch_result = Rejected string | Replied nat "string + 'b"

definition ok :: "nat \<Rightarrow> bool" where
  "ok st = (200 \<le> st \<and> st \<le> 299)"

record glad_alert =
  g_date :: "int option"
  g_alerts :: "jsnum option"
  g_area :: "jsnum option"
  g_confidence :: "jsnum option"
  g_lat :: "jsnum option"
  g_lng :: "jsnum option"

record gbif_result =
  gb_key :: "jsnum option"
  gb_vernacularName :: "string option"
  gb_canonicalName :: "string option"
  gb_scientificName :: "string option"
  gb_threatStatus :: "string option"
  gb_habitat :: "string option"

text \<open>
  The OpenWeather reply: \<open>main\<close> is (temp, humidity, pressure); \<open>wind\<close>, \<open>clouds\<close> and
  \<open>sys\<close> are objects the parser dereferences without a guard, so their absence throws.
\<close>

record ow_data =
  ow_main :: "(jsnum \<times> jsnum \<times> jsnum) option"
  ow_rain1h :: "jsnum option"
  ow_snow1h :: "jsnum option"
  ow_wind_speed :: "jsnum option"
  ow_clouds_all :: "jsnum option"
  ow_sys :: "unit option"


section \<open>Adapter parse functions (cloudflare/worker.ts)\<close>

text \<open>\<open>a || b\<close> on two optional numbers and a default, as in \<open>alert.alerts || alert.area || 1\<close>.\<close>

definition num_or2 :: "jsnum option \<Rightarrow> jsnum option \<Rightarrow> jsnum \<Rightarrow> jsnum" where
  "num_or2 a b d = num_or a (num_or b d)"

text \<open>One CSV line of \<open>parseFireCsvData\<close>: the body of its loop.\<close>

definition fire_row :: "int \<Rightarrow> string \<Rightarrow> forest_alert list" where
  "fire_row now raw =
     (let line = trim raw in
      if line = [] then []
      else (let fields = split_on CHR '','' line in
            if length fields \<ge> 13 then
              (let lat = parseFloat (fields ! 0);
                   lng = parseFloat (fields ! 1);
                   confidence = parseFloat (fields ! 8);
                   frp = parseFloat (fields ! 11)
               in [\<lparr>a_timestamp = now, a_type = Fire,
                     a_severity = calculateFireSeverity frp confidence,
                     a_confidence = confidence, a_coordinates = (lat, lng)\<rparr>])
            else []))"

text \<open>The loop runs over the lines of index 1 to 50.\<close>

definition parseFireCsvData :: "int \<Rightarrow> string \<Rightarrow> forest_alert list" where
  "parseFireCsvData now csvData =
     (let lines = split_on CHR 0x0A csvData
      in concat (map (fire_row now) (take 50 (drop 1 lines))))"

text \<open>
  \<open>parseGladAlertsData\<close>: \<open>None\<close> is a payload without a \<open>data\<close> array. The alert at
  index \<open>i\<close> may draw \<open>rnd (2 * i)\<close> and \<open>rnd (2 * i + 1)\<close> from \<open>Math.random\<close>.
\<close>

definition glad_row :: "int \<Rightarrow> (nat \<Rightarrow> real) \<Rightarrow> nat \<times> glad_alert \<Rightarrow> forest_alert" where
  "glad_row now rnd ia =
     (let index = fst ia; alert = snd ia in
      \<lparr>a_timestamp = (case g_date alert of Some d \<Rightarrow> d | None \<Rightarrow> now),
       a_type = Deforestation,
       a_severity = getDeforestationSeverity (num_or2 (g_alerts alert) (g_area alert) (Num 1)),
       a_confidence = num_or (g_confidence alert) (Num 85),
       a_coordinates = (num_or (g_lat alert) (Num (rnd (2 * index) * 10 - 5)),
                        num_or (g_lng alert) (Num (rnd (2 * index + 1) * 20 - 10)))\<rparr>)"

definition parseGladAlertsData :: "int \<Rightarrow> (nat \<Rightarrow> real) \<Rightarrow> glad_alert list option \<Rightarrow> forest_alert list" where
  "parseGladAlertsData now rnd payload =
     (case payload of
        None \<Rightarrow> []
      | Some xs \<Rightarrow> map (glad_row now rnd) (enumerate 0 (take 25 xs)))"

datatype 'a thrown = Throws string | Returns 'a

definition parseOpenWeatherData :: "ow_data \<Rightarrow> weather thrown" where
  "parseOpenWeatherData d =
     (case ow_main d of
        None \<Rightarrow> Throws ''TypeError''
      | Some (temp, humidity, pressure) \<Rightarrow>
         (case ow_wind_speed d of
            None \<Rightarrow> Throws ''TypeError''
          | Some speed \<Rightarrow>
             (case ow_clouds_all d of
                None \<Rightarrow> Throws ''TypeError''
              | Some cloud \<Rightarrow>
                 (case ow_sys d of
                    None \<Rightarrow> Throws ''TypeError''
                  | Some _ \<Rightarrow>
                     Returns \<lparr>w_temperature = temp, w_humidity = humidity,
                        w_precipitation = num_or2 (ow_rain1h d) (ow_snow1h d) (Num 0),
                        w_windSpeed = speed, w_pressure = pressure, w_cloudCover = cloud,
                        w_uvIndex = Num 0,
                        w_fireWeatherIndex =
                          calculateFireWeatherIndex temp humidity (num_or (ow_rain1h d) (Num 0))\<rparr>))))"

definition determineConservationStatus :: "gbif_result \<Rightarrow> conservation" where
  "determineConservationStatus gbifResult =
     (let status = toLowerCase (str_or (gb_threatStatus gbifResult) [])
      in if str_includes status ''critically endangered'' then Critically_endangered
         else if str_includes status ''endangered'' \<or> str_includes status ''vulnerable''
              then Declining
         else if str_includes status ''recovering'' \<or> str_includes status ''improving''
              then Recovering
         else Stable)"

text \<open>\<open>String.prototype.replace\<close> with one-character strings: the first occurrence.\<close>

fun replace_first :: "char \<Rightarrow> char \<Rightarrow> string \<Rightarrow> string" where
  "replace_first a b [] = []"
| "replace_first a b (c # cs) = (if c = a then b # cs else c # replace_first a b cs)"

text \<open>
  \<open>parseGBIFSpeciesData\<close> calls \<open>Math.random\<close> five times; \<open>r 0\<close>, \<open>r 1\<close>, \<open>r 3\<close> and
  \<open>r 4\<close> are the draws of the fields kept (\<open>r 2\<close> is the one of \<open>lastSeen\<close>).
\<close>

definition parseGBIFSpeciesData :: "(nat \<Rightarrow> real) \<Rightarrow> gbif_result \<Rightarrow> species" where
  "parseGBIFSpeciesData r g =
     \<lparr>sp_id = (if (case gb_key g of Some k \<Rightarrow> truthy_num k | None \<Rightarrow> False)
               then IdNum (the (gb_key g))
               else (case gb_scientificName g of
                       None \<Rightarrow> IdUndefined
                     | Some n \<Rightarrow> IdStr (replace_first CHR '' '' CHR ''_'' (toLowerCase n)))),
      sp_name = (if falsy_str (gb_vernacularName g)
                 then str_or (gb_canonicalName g) ''Unknown Species''
                 else the (gb_vernacularName g)),
      sp_scientificName = (if falsy_str (gb_scientificName g) then gb_canonicalName g
                           else gb_scientificName g),
      sp_status = determineConservationStatus g,
      sp_population = Num (of_int \<lfloor>r 0 * 100000\<rfloor> + 1000),
      sp_trend = Num ((r 1 - 0.5) * 6),
      sp_habitat = str_or (gb_habitat g) ''Forest'',
      sp_confidence = Num (85 + r 3 * 10),
      sp_threatLevel = Num (of_int \<lfloor>r 4 * 100\<rfloor>),
      sp_conservationStatus = str_or (gb_threatStatus g) ''Data Deficient''\<rparr>"


section \<open>Mock generators (cloudflare/worker.ts)\<close>

definition generateMockFireAlerts :: "int \<Rightarrow> forest_alert list" where
  "generateMockFireAlerts now =
     [\<lparr>a_timestamp = now, a_type = Fire, a_severity = High, a_confidence = Num 85,
       a_coordinates = (Num (-3.2), Num (-61.8))\<rparr>,
      \<lparr>a_timestamp = now - 3600000, a_type = Fire, a_severity = Critical, a_confidence = Num 92,
       a_coordinates = (Num 1.5, Num 104.2)\<rparr>]"

definition generateMockDeforestationAlerts :: "int \<Rightarrow> forest_alert list" where
  "generateMockDeforestationAlerts now =
     [\<lparr>a_timestamp = now - 7200000, a_type = Deforestation, a_severity = High,
       a_confidence = Num 78, a_coordinates = (Num (-0.3), Num 15.9)\<rparr>,
      \<lparr>a_timestamp = now - 10800000, a_type = Deforestation, a_severity = Critical,
       a_confidence = Num 89, a_coordinates = (Num (-4.1), Num (-63.2))\<rparr>]"

definition generateMockBiodiversityData :: "species list" where
  "generateMockBiodiversityData =
     [\<lparr>sp_id = IdStr ''orangutan_server'', sp_name = ''Sumatran Orangutan'',
       sp_scientificName = Some ''Pongo abelii'', sp_status = Critically_endangered,
       sp_population = Num 14000, sp_trend = Num (-2.3), sp_habitat = ''Tropical Rainforest'',
       sp_confidence = Num 92, sp_threatLevel = Num 85,
       sp_conservationStatus = ''Critically Endangered''\<rparr>,
      \<lparr>sp_id = IdStr ''jaguar_server'', sp_name = ''Jaguar'',
       sp_scientificName = Some ''Panthera onca'', sp_status = Declining,
       sp_population = Num 64000, sp_trend = Num (-1.8), sp_habitat = ''Amazon Rainforest'',
       sp_confidence = Num 88, sp_threatLevel = Num 72,
       sp_conservationStatus = ''Near Threatened''\<rparr>]"

definition generateEnhancedForestRegions :: "forest_region list" where
  "generateEnhancedForestRegions =
     [\<lparr>r_id = ''amazon'', r_name = ''Amazon Basin'', r_lat = Num (-3.4653),
       r_lng = Num (-62.2159), r_healthScore = Num 75, r_deforestationRate = Num 2.3,
       r_biodiversityIndex = Num 94, r_alertLevel = High, r_area = Num 6700000,
       r_forestCover = Num 83, r_fireRisk = Num 65, r_temperature = Num 26.5,
       r_precipitation = Num 2300\<rparr>,
      \<lparr>r_id = ''congo'', r_name = ''Congo Basin'', r_lat = Num (-0.228),
       r_lng = Num 15.8277, r_healthScore = Num 82, r_deforestationRate = Num 1.8,
       r_biodiversityIndex = Num 87, r_alertLevel = Medium, r_area = Num 3700000,
       r_forestCover = Num 89, r_fireRisk = Num 45, r_temperature = Num 25.2,
       r_precipitation = Num 1800\<rparr>]"

text \<open>\<open>mockWeather\<close> draws \<open>r 0\<close> to \<open>r 5\<close> from \<open>Math.random\<close>, in the order of the source.\<close>

definition mockWeather :: "(nat \<Rightarrow> real) \<Rightarrow> jsnum \<Rightarrow> jsnum \<Rightarrow> weather" where
  "mockWeather r lat lng =
     (let temp = js_add (js_sub (Num 30) (js_mul (Math_abs lat) (Num 0.6)))
                        (Num ((r 0 - 0.5) * 10));
          humidity = Num (60 + r 1 * 30);
          precipitation =
            js_add (Math_max (Num 0) (js_sub (Num 20) (js_mul (Math_abs lat) (Num 0.2))))
                   (Num (r 2 * 5))
      in \<lparr>w_temperature = temp, w_humidity = humidity, w_precipitation = precipitation,
          w_windSpeed = Num (5 + r 3 * 15), w_pressure = Num (1013 + (r 4 - 0.5) * 20),
          w_cloudCover = Num (r 5 * 100),
          w_uvIndex = Math_max (Num 0) (js_sub (Num 11) (js_div (Math_abs lat) (Num 10))),
          w_fireWeatherIndex = calculateFireWeatherIndex temp humidity precipitation\<rparr>)"


section \<open>The worker (cloudflare/worker.ts)\<close>

text \<open>
  A handler runs against the world outside it: the clock, the replies of the upstream
  services and the draws of \<open>Math.random\<close>. Its state is the edge cache and the log of
  the upstream calls made. A cache key is the key URL of the source: the text after the
  host for the fire and weather keys, whose components are strings, and the components
  themselves, numbers kept as numbers, for the keys in which only the first component can
  hold a slash. The URL is taken as written: what the URL parser changes in it (dot
  segments, a fragment) is not modelled.
\<close>

datatype cache_key =
    FireKey string
  | DeforestKey string jsnum string jsnum
  | WeatherKey string
  | RegionsKey
  | BiodiversityKey string jsnum

datatype upstream_call = FirmsCall string | GfwCall | OpenWeatherCall | GbifCall string

datatype payload =
    NoData
  | PlainOk
  | HealthData bool bool
  | Alerts "forest_alert list"
  | Regions "forest_region list"
  | SpeciesList "species list"
  | WeatherData weather
  | SatelliteData satellite
  | ProfileData

record response =
  res_status :: nat
  res_success :: bool
  res_data :: payload
  res_source :: "string option"
  res_error :: "string option"

record wstate =
  wcache :: "cache_key \<rightharpoonup> response"
  fetched :: "upstream_call list"

record world =
  wl_now :: int
  wl_today :: string
  wl_firms :: "string \<Rightarrow> string fetch_result"
  wl_gfw :: "glad_alert list option fetch_result"
  wl_openweather :: "ow_data fetch_result"
  wl_gbif :: "string \<Rightarrow> gbif_result list option fetch_result"
  wl_random :: "nat \<Rightarrow> real"
  wl_draws :: "string \<Rightarrow> nat \<Rightarrow> real"

record env =
  NASA_FIRMS_API_KEY :: "string option"
  OPENWEATHER_API_KEY :: "string option"

record request =
  rq_method :: string
  rq_pathname :: string
  rq_searchParams :: params
  rq_authorization :: "string option"

text \<open>\<open>json(body)\<close> of a success and of a failure.\<close>

definition json_data :: "payload \<Rightarrow> string \<Rightarrow> response" where
  "json_data d src =
     \<lparr>res_status = 200, res_success = True, res_data = d, res_source = Some src,
      res_error = None\<rparr>"

definition json_fallback :: "payload \<Rightarrow> string \<Rightarrow> response" where
  "json_fallback d msg =
     \<lparr>res_status = 200, res_success = True, res_data = d, res_source = Some ''mock-fallback'',
      res_error = Some msg\<rparr>"

definition json_error :: "string \<Rightarrow> nat \<Rightarrow> response" where
  "json_error msg st =
     \<lparr>res_status = st, res_success = False, res_data = NoData, res_source = None,
      res_error = Some msg\<rparr>"

definition cache_put :: "cache_key \<Rightarrow> response \<Rightarrow> wstate \<Rightarrow> wstate" where
  "cache_put k res st = st\<lparr>wcache := (wcache st)(k \<mapsto> res)\<rparr>"

definition log_call :: "upstream_call \<Rightarrow> wstate \<Rightarrow> wstate" where
  "log_call c st = st\<lparr>fetched := fetched st @ [c]\<rparr>"

definition handleHealth :: "env \<Rightarrow> response" where
  "handleHealth e =
     \<lparr>res_status = 200, res_success = True,
      res_data = HealthData
        (\<not> falsy_str (NASA_FIRMS_API_KEY e)
           \<and> NASA_FIRMS_API_KEY e \<noteq> Some ''YOUR_NASA_FIRMS_API_KEY_HERE'')
        (\<not> falsy_str (OPENWEATHER_API_KEY e)
           \<and> OPENWEATHER_API_KEY e \<noteq> Some ''YOUR_OPENWEATHER_API_KEY_HERE''),
      res_source = None, res_error = None\<rparr>"

subsection \<open>Fire alerts\<close>

text \<open>
  The loop over the FIRMS datasets: the first dataset that replies well ends it; a failure
  is kept as \<open>lastError\<close> and the loop goes on. \<open>Inl\<close> is the error thrown after the loop.
\<close>

fun try_datasets ::
  "world \<Rightarrow> string list \<Rightarrow> string \<Rightarrow> wstate \<Rightarrow> (string + string \<times> forest_alert list) \<times> wstate" where
  "try_datasets w [] lastError st = (Inl lastError, st)"
| "try_datasets w (dataset # rest) lastError st =
     (let st' = log_call (FirmsCall dataset) st in
      case wl_firms w dataset of
        Rejected msg \<Rightarrow> try_datasets w rest msg st'
      | Replied code body \<Rightarrow>
          if \<not> ok code then try_datasets w rest (''NASA FIRMS API error: '' @ show_nat code) st'
          else (case body of
                  Inl msg \<Rightarrow> try_datasets w rest msg st'
                | Inr csv \<Rightarrow> (Inr (dataset, parseFireCsvData (wl_now w) csv), st')))"

definition handleFireAlerts :: "world \<Rightarrow> params \<Rightarrow> env \<Rightarrow> wstate \<Rightarrow> response \<times> wstate" where
  "handleFireAlerts w url e st =
     (let region = str_or (get_param url ''region'') (str_or (get_param url ''area'') ''world'');
          days = str_or (get_param url ''days'') ''1'';
          forcedDataset = toUpperCase (str_or (get_param url ''dataset'') []);
          cacheKey = FireKey (region @ ''/'' @ days)
      in case wcache st cacheKey of
           Some cached \<Rightarrow> (cached, st)
         | None \<Rightarrow>
            (let overrideKey = str_or (get_param url ''key'') (str_or (get_param url ''mapKey'') []);
                 apiKey = str_or (Some overrideKey)
                            (str_or (NASA_FIRMS_API_KEY e) ''YOUR_NASA_FIRMS_API_KEY_HERE'')
             in if apiKey = ''YOUR_NASA_FIRMS_API_KEY_HERE'' then
                  (if no_mock url then (json_error ''NASA FIRMS key not configured'' 502, st)
                   else (let res = json_data (Alerts (generateMockFireAlerts (wl_now w))) ''mock''
                         in (res, cache_put cacheKey res st)))
                else
                  (let datasets = (if forcedDataset \<noteq> [] then [forcedDataset]
                                   else [''MODIS_NRT'', ''VIIRS_SNPP_NRT'', ''VIIRS_NOAA20_NRT''])
                   in case try_datasets w datasets ''NASA FIRMS datasets unavailable'' st of
                        (Inr (dataset, alerts), st') \<Rightarrow>
                          (let res = json_data (Alerts alerts) (''nasa-firms:'' @ toLowerCase dataset)
                           in (res, cache_put cacheKey res st'))
                      | (Inl msg, st') \<Rightarrow>
                          if no_mock url
                          then (json_error (str_or (Some msg) ''Fire alerts failed'') 502, st')
                          else (json_fallback (Alerts (generateMockFireAlerts (wl_now w))) msg, st'))))"

subsection \<open>Deforestation alerts\<close>

text \<open>
  A \<open>Date\<close> holds a time value of at most 8.64e15 milliseconds either way; beyond that,
  and for \<open>NaN\<close>, it is invalid and \<open>toISOString()\<close> throws a \<open>RangeError\<close>.
\<close>

definition valid_time :: "jsnum \<Rightarrow> bool" where
  "valid_time t = (case t of NaN \<Rightarrow> False | Num r \<Rightarrow> \<bar>r\<bar> \<le> 8640000000000000)"

text \<open>
  The handler prints the start of the period, \<open>Date.now() - Math.max(1, days)\<close> days,
  before its \<open>try\<close> block and before it looks into the cache: when that date is invalid
  the handler throws, and its promise rejects.
\<close>

definition handleDeforestationAlerts ::
  "world \<Rightarrow> params \<Rightarrow> wstate \<Rightarrow> (response \<times> wstate) thrown" where
  "handleDeforestationAlerts w url st =
     (let region = str_or (get_param url ''region'') ''BRA'';
          days = parseInt (str_or (get_param url ''days'') ''90'');
          limit = parseInt (str_or (get_param url ''limit'') ''50'');
          start = js_sub (Num (real_of_int (wl_now w)))
                    (js_mul (Math_max (Num 1) days) (Num (24 * 60 * 60 * 1000)));
          cacheKey = DeforestKey region days (wl_today w) limit
      in if \<not> valid_time start then Throws ''Invalid time value''
         else Returns
        (case wcache st cacheKey of
           Some cached \<Rightarrow> (cached, st)
         | None \<Rightarrow>
            (let st' = log_call GfwCall st;
                 outcome = (case wl_gfw w of
                              Rejected msg \<Rightarrow> Throws msg
                            | Replied code body \<Rightarrow>
                                if \<not> ok code then Throws (''GFW API error: '' @ show_nat code)
                                else (case body of
                                        Inl msg \<Rightarrow> Throws msg
                                      | Inr jsonData \<Rightarrow>
                                          Returns (parseGladAlertsData (wl_now w) (wl_random w) jsonData)))
             in case outcome of
                  Returns alerts \<Rightarrow>
                    (let res = json_data (Alerts alerts) ''global-forest-watch''
                     in (res, cache_put cacheKey res st'))
                | Throws msg \<Rightarrow>
                    if no_mock url
                    then (json_error (str_or (Some msg) ''Deforestation alerts failed'') 502, st')
                    else (let res = json_fallback
                                      (Alerts (generateMockDeforestationAlerts (wl_now w))) msg
                          in (res, cache_put cacheKey res st')))))"

subsection \<open>Weather\<close>

definition handleWeather :: "world \<Rightarrow> params \<Rightarrow> env \<Rightarrow> wstate \<Rightarrow> response \<times> wstate" where
  "handleWeather w url e st =
     (let lat = get_param url ''lat'';
          lng = get_param url ''lng''
      in if falsy_str lat \<or> falsy_str lng
         then (json_error ''Latitude and longitude required'' 400, st)
         else
          (let cacheKey = WeatherKey (the lat @ ''/'' @ the lng) in
           case wcache st cacheKey of
             Some cached \<Rightarrow> (cached, st)
           | None \<Rightarrow>
              (let apiKey = str_or (OPENWEATHER_API_KEY e) ''YOUR_OPENWEATHER_API_KEY_HERE'';
                   mock = WeatherData (mockWeather (wl_random w) (parseFloat (the lat))
                                         (parseFloat (the lng)))
               in if apiKey = ''YOUR_OPENWEATHER_API_KEY_HERE'' then
                    (if no_mock url then (json_error ''OpenWeather key not configured'' 502, st)
                     else (let res = json_data mock ''mock'' in (res, cache_put cacheKey res st)))
                  else
                    (let st' = log_call OpenWeatherCall st;
                         outcome = (case wl_openweather w of
                                      Rejected msg \<Rightarrow> Throws msg
                                    | Replied code body \<Rightarrow>
                                        if \<not> ok code
                                        then Throws (''OpenWeather API error: '' @ show_nat code)
                                        else (case body of
                                                Inl msg \<Rightarrow> Throws msg
                                              | Inr d \<Rightarrow> parseOpenWeatherData d))
                     in case outcome of
                          Returns wd \<Rightarrow>
                            (let res = json_data (WeatherData wd) ''openweather''
                             in (res, cache_put cacheKey res st'))
                        | Throws msg \<Rightarrow>
                            if no_mock url
                            then (json_error (str_or (Some msg) ''Weather failed'') 502, st')
                            else (json_fallback mock msg, st')))))"

subsection \<open>Forest regions\<close>

text \<open>\<open>handleForestRegions\<close> takes no argument: it never sees the query parameters.\<close>

definition handleForestRegions :: "wstate \<Rightarrow> response \<times> wstate" where
  "handleForestRegions st =
     (case wcache st RegionsKey of
        Some cached \<Rightarrow> (cached, st)
      | None \<Rightarrow>
          (let res = json_data (Regions generateEnhancedForestRegions) ''server-generated''
           in (res, cache_put RegionsKey res st)))"

subsection \<open>Biodiversity\<close>

definition speciesQueries :: "string list" where
  "speciesQueries =
     [''Pongo abelii'', ''Panthera onca'', ''Gorilla beringei'', ''Harpia harpyja'', ''Ara macao'']"

text \<open>The loop over the species names: a reply that is not usable is skipped silently.\<close>

fun gbif_loop :: "world \<Rightarrow> string list \<Rightarrow> species list \<Rightarrow> wstate \<Rightarrow> species list \<times> wstate" where
  "gbif_loop w [] results st = (results, st)"
| "gbif_loop w (q # qs) results st =
     (let st' = log_call (GbifCall q) st in
      case wl_gbif w q of
        Replied code (Inr (Some (g # gs))) \<Rightarrow>
          if ok code then gbif_loop w qs (results @ [parseGBIFSpeciesData (wl_draws w q) g]) st'
          else gbif_loop w qs results st'
      | _ \<Rightarrow> gbif_loop w qs results st')"

text \<open>
  The backfill loop
  \<^verbatim>\<open>while (results.length < Math.min(limit, speciesQueries.length)) { if (no_mock) break;
  results.push(...generateMockBiodiversityData().slice(results.length, results.length + 1)); }\<close>
  may run forever, so it is a partial function: \<open>None\<close> is the loop that never ends.
\<close>

partial_function (option) backfill :: "bool \<Rightarrow> jsnum \<Rightarrow> species list \<Rightarrow> species list option" where
  "backfill nomock limit results =
     (if js_lt (Num (real (length results))) (Math_min limit (Num (real (length speciesQueries))))
      then (if nomock then Some results
            else backfill nomock limit
                   (results @ slice (Num (real (length results))) (Num (real (length results + 1)))
                                generateMockBiodiversityData))
      else Some results)"

declare backfill.simps [code]

definition handleBiodiversity :: "world \<Rightarrow> params \<Rightarrow> wstate \<Rightarrow> (response \<times> wstate) option" where
  "handleBiodiversity w url st =
     (let region = str_or (get_param url ''region'') ''global'';
          limit = parseInt (str_or (get_param url ''limit'') ''20'');
          cacheKey = BiodiversityKey region limit
      in case wcache st cacheKey of
           Some cached \<Rightarrow> Some (cached, st)
         | None \<Rightarrow>
            (case gbif_loop w speciesQueries [] st of
               (live, st') \<Rightarrow>
                 (case backfill (no_mock url) limit live of
                    None \<Rightarrow> None
                  | Some results \<Rightarrow>
                      (let res = json_data (SpeciesList (slice (Num 0) limit results))
                                   (if length results \<ge> length speciesQueries
                                    then ''gbif-enhanced'' else ''mock'')
                       in Some (res, cache_put cacheKey res st')))))"

subsection \<open>Satellite data and the user profile\<close>

definition handleSatelliteData :: "world \<Rightarrow> params \<Rightarrow> wstate \<Rightarrow> response \<times> wstate" where
  "handleSatelliteData w url st =
     (let lat = get_param url ''lat'';
          lng = get_param url ''lng'';
          layer = str_or (get_param url ''layer'') ''MODIS_Terra_CorrectedReflectance_TrueColor''
      in if falsy_str lat \<or> falsy_str lng
         then (json_error ''Latitude and longitude required'' 400, st)
         else (json_data
                 (SatelliteData
                    \<lparr>sat_coordinates = (parseFloat (the lat), parseFloat (the lng)),
                     sat_coverage = Num (85 + wl_random w 0 * 10),
                     sat_cloudCover = Num (wl_random w 1 * 30),
                     sat_resolution = (if str_includes layer ''MODIS'' then 250 else 375),
                     sat_layer = layer\<rparr>)
                 ''nasa-gibs'', st))"

definition handleUserProfile :: "request \<Rightarrow> response" where
  "handleUserProfile rq =
     (if falsy_str (rq_authorization rq) then json_error ''No authorization header'' 401
      else json_data ProfileData ''worker-profile'')"

subsection \<open>The dispatcher\<close>

text \<open>
  The path without one trailing slash and without the \<open>/api\<close> prefix. The reply to
  \<open>OPTIONS\<close> is the plain text \<open>ok\<close>, kept as \<open>PlainOk\<close>. The dispatcher returns the
  promise of the handler without awaiting it, so its \<open>catch\<close> does not see a handler that
  throws: the request is then answered by no response (\<open>Throws\<close>). \<open>None\<close> is the
  request whose handler never returns.
\<close>

definition normalize_path :: "string \<Rightarrow> string" where
  "normalize_path pathname =
     (let path = (if pathname \<noteq> [] \<and> last pathname = CHR ''/'' then butlast pathname
                  else pathname)
      in if starts_with path ''/api/'' then drop 4 path
         else if path = ''/api'' then ''/''
         else path)"

definition fetch ::
  "world \<Rightarrow> request \<Rightarrow> env \<Rightarrow> wstate \<Rightarrow> (response \<times> wstate) thrown option" where
  "fetch w rq e st =
     (if rq_method rq = ''OPTIONS''
      then Some (Returns (\<lparr>res_status = 200, res_success = True, res_data = PlainOk,
                            res_source = None, res_error = None\<rparr>, st))
      else (let path = normalize_path (rq_pathname rq);
                url = rq_searchParams rq
            in if path = ''/health'' then Some (Returns (handleHealth e, st))
               else if path = ''/fire-alerts'' then Some (Returns (handleFireAlerts w url e st))
               else if path = ''/deforestation-alerts''
                 then Some (handleDeforestationAlerts w url st)
               else if path = ''/weather'' then Some (Returns (handleWeather w url e st))
               else if path = ''/forest-regions'' then Some (Returns (handleForestRegions st))
               else if path = ''/biodiversity''
                 then map_option Returns (handleBiodiversity w url st)
               else if path = ''/satellite-data''
                 then Some (Returns (handleSatelliteData w url st))
               else if path = ''/user-profile'' then Some (Returns (handleUserProfile rq, st))
               else Some (Returns (json_error ''Endpoint not found'' 404, st))))"


section \<open>The forest-api edge function\<close>

























section \<open>The cache of the data services\<close>

text \<open>
  \<open>EnhancedForestDataService\<close> and \<open>ServerSideDataService\<close> hold the same private cache:
  a \<open>Map\<close> from key to \<open>{data, timestamp}\<close>. The clock \<open>Date.now()\<close> is the argument
  \<open>now\<close>, in milliseconds. \<open>setCachedData\<close> takes a duration and does not store it;
  the duration that decides validity is the one given to \<open>getCachedData\<close>.
\<close>

record 'v cache_entry =
  data :: 'v
  timestamp :: int

type_synonym 'v cache = "string \<rightharpoonup> 'v cache_entry"

definition FOREST_DATA :: int where "FOREST_DATA = 24 * 60 * 60 * 1000"

definition getCachedData :: "'v cache \<Rightarrow> int \<Rightarrow> string \<Rightarrow> int \<Rightarrow> 'v option" where
  "getCachedData c now key duration =
     (case c key of
        Some cached \<Rightarrow> if now - timestamp cached < duration then Some (data cached) else None
      | None \<Rightarrow> None)"

definition setCachedData :: "'v cache \<Rightarrow> int \<Rightarrow> string \<Rightarrow> 'v \<Rightarrow> int \<Rightarrow> 'v cache" where
  "setCachedData c now key d duration = c(key \<mapsto> \<lparr>data = d, timestamp = now\<rparr>)"

text \<open>The calls that leave the duration out take the default \<open>CACHE_DURATIONS.FOREST_DATA\<close>.\<close>

definition getCachedData_default :: "'v cache \<Rightarrow> int \<Rightarrow> string \<Rightarrow> 'v option" where
  "getCachedData_default c now key = getCachedData c now key FOREST_DATA"

definition setCachedData_default :: "'v cache \<Rightarrow> int \<Rightarrow> string \<Rightarrow> 'v \<Rightarrow> 'v cache" where
  "setCachedData_default c now key d = setCachedData c now key d FOREST_DATA"





section \<open>The browser services\<close>

text \<open>
  \<open>apiConfigManager\<close> as the services read it: \<open>hasApiKey('nasa_firms')\<close> and
  \<open>isNoMockEnabled()\<close>. A call into the network (the worker, an upstream, the other
  service) is an input of the model: what it returned or the message it threw. Of the
  services' cache map, the entries that hold alert lists are modelled.
\<close>

record config =
  hasNasaKey :: bool
  noMock :: bool

subsection \<open>ServerSideDataService.getDeforestationAlerts\<close>




subsection \<open>EnhancedForestDataService.getForestAlerts\<close>

definition getMockFireAlerts :: "int \<Rightarrow> forest_alert list" where
  "getMockFireAlerts now =
     [\<lparr>a_timestamp = now, a_type = Fire, a_severity = High, a_confidence = Num 85,
       a_coordinates = (Num (-3.2), Num (-61.8))\<rparr>,
      \<lparr>a_timestamp = now - 3600000, a_type = Fire, a_severity = Critical, a_confidence = Num 92,
       a_coordinates = (Num 1.5, Num 104.2)\<rparr>]"

definition getMockDeforestationAlerts :: "int \<Rightarrow> forest_alert list" where
  "getMockDeforestationAlerts now =
     [\<lparr>a_timestamp = now - 7200000, a_type = Deforestation, a_severity = High,
       a_confidence = Num 78, a_coordinates = (Num (-0.3), Num 15.9)\<rparr>,
      \<lparr>a_timestamp = now - 10800000, a_type = Deforestation, a_severity = Critical,
       a_confidence = Num 89, a_coordinates = (Num (-4.1), Num (-63.2))\<rparr>]"

definition getMockBiodiversityAlerts :: "int \<Rightarrow> forest_alert list" where
  "getMockBiodiversityAlerts now =
     [\<lparr>a_timestamp = now - 14400000, a_type = Biodiversity, a_severity = High,
       a_confidence = Num 85, a_coordinates = (Num 0.5, Num 101.5)\<rparr>,
      \<lparr>a_timestamp = now - 18000000, a_type = Biodiversity, a_severity = Medium,
       a_confidence = Num 72, a_coordinates = (Num (-22.9), Num (-43.2))\<rparr>]"

text \<open>\<open>mockDataService.getForestAlerts()\<close>.\<close>

definition MockDataService_getForestAlerts :: "int \<Rightarrow> forest_alert list" where
  "MockDataService_getForestAlerts now =
     [\<lparr>a_timestamp = now - 2 * 60 * 60 * 1000, a_type = Fire, a_severity = Critical,
       a_confidence = Num 94, a_coordinates = (Num (-3.2), Num (-61.8))\<rparr>,
      \<lparr>a_timestamp = now - 4 * 60 * 60 * 1000, a_type = Deforestation, a_severity = High,
       a_confidence = Num 87, a_coordinates = (Num (-0.5), Num 16.2)\<rparr>,
      \<lparr>a_timestamp = now - 6 * 60 * 60 * 1000, a_type = Fire, a_severity = High,
       a_confidence = Num 82, a_coordinates = (Num 1.5, Num 104.2)\<rparr>,
      \<lparr>a_timestamp = now - 12 * 60 * 60 * 1000, a_type = Biodiversity, a_severity = Medium,
       a_confidence = Num 76, a_coordinates = (Num 65.1, Num (-152.8))\<rparr>,
      \<lparr>a_timestamp = now - 18 * 60 * 60 * 1000, a_type = Weather, a_severity = Medium,
       a_confidence = Num 91, a_coordinates = (Num (-4.1), Num (-73.2))\<rparr>]"

text \<open>
  The calls \<open>getForestAlerts\<close> makes, in the order it makes them, are its trace:
  the health check of the server and \<open>serverSideDataService.getForestAlerts()\<close>,
  \<open>getLiveFireAlerts()\<close>, \<open>serverSideDataService.getDeforestationAlerts('BRA', 90, 50)\<close>
  through the worker, \<open>getLiveDeforestationAlerts()\<close>, and the mock generators.
\<close>

datatype step =
    ServerHealth | ServerAlerts | LiveFire | MockFire | WorkerDeforestation | LiveDeforestation
  | MockDeforestation | MockBiodiversity | MockService

record alerts_world =
  aw_now :: int
  aw_isBrowser :: bool
  aw_serverHealth :: "bool thrown"
  aw_serverAlerts :: "forest_alert list thrown"
  aw_liveFire :: "forest_alert list thrown"
  aw_workerDeforestation :: "forest_alert list thrown"
  aw_liveDeforestation :: "forest_alert list thrown"

text \<open>The server is tried first only when no NASA key is configured.\<close>

definition server_stage :: "config \<Rightarrow> alerts_world \<Rightarrow> forest_alert list option \<times> step list" where
  "server_stage cfg w =
     (if \<not> hasNasaKey cfg then
        (case aw_serverHealth w of
           Returns healthy \<Rightarrow>
             if healthy then
               (case aw_serverAlerts w of
                  Returns xs \<Rightarrow> (Some xs, [ServerHealth, ServerAlerts])
                | Throws _ \<Rightarrow> (None, [ServerHealth, ServerAlerts]))
             else (None, [ServerHealth])
         | Throws _ \<Rightarrow> (None, [ServerHealth]))
      else (None, []))"

definition fire_stage :: "config \<Rightarrow> alerts_world \<Rightarrow> forest_alert list thrown \<times> step list" where
  "fire_stage cfg w =
     (if hasNasaKey cfg then
        (case aw_liveFire w of
           Returns fireAlerts \<Rightarrow> (Returns fireAlerts, [LiveFire])
         | Throws msg \<Rightarrow>
             if noMock cfg then (Throws msg, [LiveFire])
             else (Returns (getMockFireAlerts (aw_now w)), [LiveFire, MockFire]))
      else if noMock cfg then (Returns [], [])
      else (Returns (getMockFireAlerts (aw_now w)), [MockFire]))"

definition deforestation_stage ::
  "config \<Rightarrow> alerts_world \<Rightarrow> forest_alert list thrown \<times> step list" where
  "deforestation_stage cfg w =
     (let attempt = (if aw_isBrowser w then aw_workerDeforestation w else aw_liveDeforestation w);
          call = (if aw_isBrowser w then WorkerDeforestation else LiveDeforestation)
      in case attempt of
           Returns deforestationAlerts \<Rightarrow> (Returns deforestationAlerts, [call])
         | Throws msg \<Rightarrow>
             if noMock cfg then (Throws msg, [call])
             else (Returns (getMockDeforestationAlerts (aw_now w)), [call, MockDeforestation]))"

text \<open>The body of the \<open>try\<close> block: the alerts gathered, or the error rethrown.\<close>

definition gather_alerts :: "config \<Rightarrow> alerts_world \<Rightarrow> forest_alert list thrown \<times> step list" where
  "gather_alerts cfg w =
     (case fire_stage cfg w of
        (Throws msg, t1) \<Rightarrow> (Throws msg, t1)
      | (Returns fire, t1) \<Rightarrow>
          (case deforestation_stage cfg w of
             (Throws msg, t2) \<Rightarrow> (Throws msg, t1 @ t2)
           | (Returns deforestation, t2) \<Rightarrow>
               (let alerts = fire @ deforestation in
                if \<not> noMock cfg \<and> alerts = []
                then (Returns (alerts @ getMockBiodiversityAlerts (aw_now w)),
                      t1 @ t2 @ [MockBiodiversity])
                else (Returns alerts, t1 @ t2))))"

definition Enhanced_getForestAlerts ::
  "config \<Rightarrow> alerts_world \<Rightarrow> forest_alert list cache
     \<Rightarrow> forest_alert list \<times> step list \<times> forest_alert list cache" where
  "Enhanced_getForestAlerts cfg w c =
     (case server_stage cfg w of
        (Some served, t0) \<Rightarrow> (served, t0, c)
      | (None, t0) \<Rightarrow>
          (case getCachedData_default c (aw_now w) ''forest_alerts_combined'' of
             Some cached \<Rightarrow> (cached, t0, c)
           | None \<Rightarrow>
               (case gather_alerts cfg w of
                  (Returns alerts, t) \<Rightarrow>
                    (let sortedAlerts = take 25 (sort_key (\<lambda>a. - a_timestamp a) alerts)
                     in (sortedAlerts, t0 @ t,
                         setCachedData_default c (aw_now w) ''forest_alerts_combined'' sortedAlerts))
                | (Throws msg, t) \<Rightarrow>
                    if noMock cfg then ([], t0 @ t, c)
                    else (MockDataService_getForestAlerts (aw_now w), t0 @ t @ [MockService], c))))"

text \<open>
  The route behind a call of the trace, and the routes one call of \<open>getForestAlerts\<close>
  attempts for the fire alerts. The health check opens the attempt through the server and
  \<open>serverSideDataService.getForestAlerts()\<close> continues it.
\<close>

datatype route = Direct | Proxy | Mock

fun fire_route :: "step \<Rightarrow> route list" where
  "fire_route ServerHealth = [Proxy]"
| "fire_route ServerAlerts = []"
| "fire_route LiveFire = [Direct]"
| "fire_route MockFire = [Mock]"
| "fire_route MockService = [Mock]"
| "fire_route _ = []"

definition fire_routes :: "step list \<Rightarrow> route list" where
  "fire_routes t = concat (map fire_route t)"


section \<open>Concrete inputs\<close>

text \<open>
  A world in which every upstream call rejects, the worker's empty state, an environment
  without keys, a \<open>GET\<close> request, and a world in which GBIF knows the first two
  species and rejects the rest.
\<close>

definition unreachable_world :: world where
  "unreachable_world =
     \<lparr>wl_now = 0, wl_today = ''2025-01-01'',
      wl_firms = (\<lambda>dataset. Rejected ''Failed to fetch''),
      wl_gfw = Rejected ''Failed to fetch'',
      wl_openweather = Rejected ''Failed to fetch'',
      wl_gbif = (\<lambda>q. Rejected ''Failed to fetch''),
      wl_random = (\<lambda>i. 0), wl_draws = (\<lambda>q i. 0)\<rparr>"

definition empty_state :: wstate where
  "empty_state = \<lparr>wcache = Map.empty, fetched = []\<rparr>"

definition get_request :: "string \<Rightarrow> params \<Rightarrow> request" where
  "get_request path ps =
     \<lparr>rq_method = ''GET'', rq_pathname = path, rq_searchParams = ps, rq_authorization = None\<rparr>"

definition no_keys :: env where
  "no_keys = \<lparr>NASA_FIRMS_API_KEY = None, OPENWEATHER_API_KEY = None\<rparr>"

definition gbif_hit :: gbif_result where
  "gbif_hit =
     \<lparr>gb_key = Some (Num 5219426), gb_vernacularName = Some ''Jaguar'',
      gb_canonicalName = Some ''Panthera onca'', gb_scientificName = Some ''Panthera onca'',
      gb_threatStatus = None, gb_habitat = None\<rparr>"

definition two_live_world :: world where
  "two_live_world =
     unreachable_world
       \<lparr>wl_gbif := (\<lambda>q. if q = ''Pongo abelii'' \<or> q = ''Panthera onca''
                         then Replied 200 (Inr (Some [gbif_hit]))
                         else Rejected ''Failed to fetch'')\<rparr>"




definition key_mocks_allowed :: config where
  "key_mocks_allowed = \<lparr>hasNasaKey = True, noMock = False\<rparr>"

definition direct_fire_fails :: alerts_world where
  "direct_fire_fails =
     \<lparr>aw_now = 0, aw_isBrowser = False, aw_serverHealth = Returns True,
      aw_serverAlerts = Returns [], aw_liveFire = Throws ''All FIRMS datasets returned no data'',
      aw_workerDeforestation = Returns [], aw_liveDeforestation = Returns []\<rparr>"






section \<open>Severity and index properties\<close>

text \<open>
  C7. Fire severity follows the threshold cascade on \<open>frp\<close> and \<open>confidence\<close>, deforestation
  severity the cascade on the alert count, and the two stated values are \<open>critical\<close> and
  \<open>low\<close>.
\<close>

theorem severity_thresholds:
  "calculateFireSeverity (Num frp) (Num confidence) =
     (if frp > 50 \<and> confidence > 80 then Critical
      else if frp > 25 \<and> confidence > 70 then High
      else if frp > 10 \<and> confidence > 60 then Medium
      else Low)
   \<and> calculateFireSeverity (Num 60) (Num 85) = Critical
   \<and> calculateFireSeverity (Num 5) (Num 50) = Low
   \<and> getDeforestationSeverity (Num alertCount) =
     (if alertCount > 100 then Critical
      else if alertCount > 50 then High
      else if alertCount > 10 then Medium
      else Low)"
  by (simp add: calculateFireSeverity_def getDeforestationSeverity_def)


section \<open>The biodiversity handler\<close>

lemma slice_mock_beyond:
  "2 \<le> n \<Longrightarrow> slice (Num (real n)) e generateMockBiodiversityData = []"
  by (simp add: slice_def slice_index_def generateMockBiodiversityData_def Let_def min_def)

text \<open>
  Once two records are there and the loop condition holds with mocks allowed, the mock list
  has nothing left to give: the slice is empty and the loop repeats in the same state.
\<close>

lemma backfill_stuck_aux:
  assumes "backfill nomock limit results = Some y"
  shows "\<not> (\<not> nomock \<and> 2 \<le> length results \<and>
            js_lt (Num (real (length results)))
                  (Math_min limit (Num (real (length speciesQueries)))))"
proof (rule backfill.raw_induct
    [where P = "\<lambda>n l r y. \<not> (\<not> n \<and> 2 \<le> length r \<and>
            js_lt (Num (real (length r))) (Math_min l (Num (real (length speciesQueries)))))",
     OF _ assms])
  fix f n l r z
  assume IH: "\<And>n l r z. f n l r = Some z \<Longrightarrow>
           \<not> (\<not> n \<and> 2 \<le> length r \<and>
            js_lt (Num (real (length r))) (Math_min l (Num (real (length speciesQueries)))))"
    and step: "(if js_lt (Num (real (length r))) (Math_min l (Num (real (length speciesQueries))))
      then (if n then Some r
            else f n l
                   (r @ slice (Num (real (length r))) (Num (real (length r + 1)))
                                generateMockBiodiversityData))
      else Some r) = Some z"
  show "\<not> (\<not> n \<and> 2 \<le> length r \<and>
            js_lt (Num (real (length r))) (Math_min l (Num (real (length speciesQueries)))))"
  proof (rule notI)
    assume c: "\<not> n \<and> 2 \<le> length r \<and>
            js_lt (Num (real (length r))) (Math_min l (Num (real (length speciesQueries))))"
    with step have "f n l r = Some z"
      by (simp add: slice_mock_beyond)
    from IH[OF this] c show False by simp
  qed
qed

lemma backfill_stuck:
  assumes "2 \<le> length results"
    and "js_lt (Num (real (length results))) (Math_min limit (Num (real (length speciesQueries))))"
  shows "backfill False limit results = None"
proof (cases "backfill False limit results")
  case None
  then show ?thesis .
next
  case (Some y)
  from backfill_stuck_aux[OF Some] assms show ?thesis by simp
qed

lemma js_lt_mono: "js_lt (Num b) m \<Longrightarrow> a \<le> b \<Longrightarrow> js_lt (Num a) m"
  by (cases m) auto

lemma backfill_diverges:
  assumes "js_lt (Num (max 2 (real (length results))))
                 (Math_min limit (Num (real (length speciesQueries))))"
  shows "backfill False limit results = None"
proof -
  let ?m = "Math_min limit (Num (real (length speciesQueries)))"
  have two: "js_lt (Num 2) ?m" using assms by (rule js_lt_mono) simp
  have one: "js_lt (Num 1) ?m" using two by (rule js_lt_mono) simp
  have zero: "js_lt (Num 0) ?m" using two by (rule js_lt_mono) simp
  consider "length results = 0" | "length results = 1" | "2 \<le> length results" by linarith
  then show ?thesis
  proof cases
    case 1
    then have r: "results = []" by simp
    have a: "backfill False limit [] = backfill False limit [generateMockBiodiversityData ! 0]"
      using zero
      by (subst backfill.simps)
         (simp add: slice_def slice_index_def generateMockBiodiversityData_def)
    have b: "backfill False limit [generateMockBiodiversityData ! 0]
               = backfill False limit generateMockBiodiversityData"
      using one
      by (subst backfill.simps)
         (simp add: slice_def slice_index_def generateMockBiodiversityData_def)
    have "backfill False limit generateMockBiodiversityData = None"
      using two by (intro backfill_stuck) (simp_all add: generateMockBiodiversityData_def)
    with a b r show ?thesis by simp
  next
    case 2
    then obtain x where r: "results = [x]" by (cases results) auto
    have a: "backfill False limit [x] = backfill False limit [x, generateMockBiodiversityData ! 1]"
      using one
      by (subst backfill.simps)
         (simp add: slice_def slice_index_def generateMockBiodiversityData_def)
    have "backfill False limit [x, generateMockBiodiversityData ! 1] = None"
      using two by (intro backfill_stuck) simp_all
    with a r show ?thesis by simp
  next
    case 3
    with assms show ?thesis by (intro backfill_stuck) (simp_all add: max_def split: if_splits)
  qed
qed

lemma backfill_live_only: "backfill True limit results = Some results"
  by (subst backfill.simps) simp

lemma backfill_enough:
  "\<not> js_lt (Num (real (length results))) (Math_min limit (Num (real (length speciesQueries))))
   \<Longrightarrow> backfill nomock limit results = Some results"
  by (subst backfill.simps) simp

lemma handleBiodiversity_never_returns:
  assumes "wcache st (BiodiversityKey (str_or (get_param url ''region'') ''global'')
                        (parseInt (str_or (get_param url ''limit'') ''20''))) = None"
    and "\<not> no_mock url"
    and "js_lt (Num (max 2 (real (length (fst (gbif_loop w speciesQueries [] st))))))
               (Math_min (parseInt (str_or (get_param url ''limit'') ''20''))
                         (Num (real (length speciesQueries))))"
  shows "handleBiodiversity w url st = None"
proof -
  obtain live st' where g: "gbif_loop w speciesQueries [] st = (live, st')"
    by (cases "gbif_loop w speciesQueries [] st")
  with assms(3) have "backfill False (parseInt (str_or (get_param url ''limit'') ''20'')) live = None"
    by (intro backfill_diverges) simp
  with assms(1,2) g show ?thesis
    by (simp add: handleBiodiversity_def Let_def)
qed

lemma length_speciesQueries: "length speciesQueries = 5"
  by (simp add: speciesQueries_def)

lemma empty_state_miss: "wcache empty_state k = None"
  by (simp add: empty_state_def)

lemma parseInt_20: "parseInt ''20'' = Num 20"
  by (simp add: parseInt_def is_ws_def is_digit_def digits_val_def digit_val_def)

lemma parseInt_5: "parseInt ''5'' = Num 5"
  by (simp add: parseInt_def is_ws_def is_digit_def digits_val_def digit_val_def)

lemma gbif_loop_unreachable:
  "gbif_loop unreachable_world qs results st
     = (results, st\<lparr>fetched := fetched st @ map GbifCall qs\<rparr>)"
  by (induction qs arbitrary: st) (simp_all add: unreachable_world_def log_call_def)

text \<open>
  C1. With mocks permitted, no cached reply and every GBIF call rejecting, a request to
  \<open>/biodiversity\<close> with the default limit of 20 is never answered: the backfill loop puts
  in the two mock records and then runs forever.
\<close>

theorem biodiversity_all_live_fail_never_returns:
  "fetch unreachable_world (get_request ''/biodiversity'' []) e empty_state = None"
proof -
  have "handleBiodiversity unreachable_world [] empty_state = None"
    by (rule handleBiodiversity_never_returns)
       (simp_all add: get_param_def no_mock_def empty_state_miss parseInt_20
          gbif_loop_unreachable length_speciesQueries)
  then show ?thesis
    by (simp add: fetch_def get_request_def normalize_path_def)
qed

lemma gbif_loop_two_live:
  "fst (gbif_loop two_live_world speciesQueries [] empty_state)
     = [parseGBIFSpeciesData (\<lambda>i. 0) gbif_hit, parseGBIFSpeciesData (\<lambda>i. 0) gbif_hit]"
  by (simp add: speciesQueries_def two_live_world_def unreachable_world_def ok_def Let_def
        log_call_def)

text \<open>
  C2. Five species are requested, GBIF answers two of them and rejects three, mocks are
  allowed: the handler holds the two live records and never returns, because the mock list
  has only two entries and the backfill asks it for the third.
\<close>

theorem biodiversity_two_live_never_returns:
  "length (fst (gbif_loop two_live_world speciesQueries [] empty_state)) = 2
   \<and> handleBiodiversity two_live_world [(''limit'', ''5'')] empty_state = None"
proof
  show "length (fst (gbif_loop two_live_world speciesQueries [] empty_state)) = 2"
    by (simp add: gbif_loop_two_live)
  show "handleBiodiversity two_live_world [(''limit'', ''5'')] empty_state = None"
    by (rule handleBiodiversity_never_returns)
       (simp_all add: get_param_def no_mock_def empty_state_miss parseInt_5
          gbif_loop_two_live length_speciesQueries)
qed

section \<open>Live-only mode and the forest regions\<close>

text \<open>
  C3. A request to \<open>/forest-regions\<close> that carries \<open>no_mock=1\<close> is answered, on an empty
  cache, with the two generated region records: the handler does not look at the flag.
\<close>

theorem forest_regions_ignores_no_mock:
  "no_mock [(''no_mock'', ''1'')]
   \<and> fetch w (get_request ''/forest-regions'' [(''no_mock'', ''1'')]) e empty_state
       = Some (Returns
                 (json_data (Regions generateEnhancedForestRegions) ''server-generated'',
                  cache_put RegionsKey
                    (json_data (Regions generateEnhancedForestRegions) ''server-generated'')
                    empty_state))
   \<and> res_success (json_data (Regions generateEnhancedForestRegions) ''server-generated'')
   \<and> length generateEnhancedForestRegions = 2"
proof -
  have "length generateEnhancedForestRegions = 2"
    by (simp add: generateEnhancedForestRegions_def)
  then show ?thesis
    by (simp add: no_mock_def get_param_def fetch_def get_request_def normalize_path_def
          handleForestRegions_def empty_state_miss json_data_def Let_def)
qed

section \<open>Missing coordinates\<close>

text \<open>
  C10. A request to \<open>/weather\<close> or \<open>/satellite-data\<close> without \<open>lat\<close> or without \<open>lng\<close>
  is answered with status 400, \<open>success: false\<close> and the error
  \<open>Latitude and longitude required\<close>; the state is the one before the request, so no
  upstream call was logged and nothing was put into the cache.
\<close>

theorem missing_coordinates_rejected:
  assumes "get_param (rq_searchParams rq) ''lat'' = None
           \<or> get_param (rq_searchParams rq) ''lng'' = None"
    and "rq_method rq \<noteq> ''OPTIONS''"
    and "normalize_path (rq_pathname rq) = ''/weather''
         \<or> normalize_path (rq_pathname rq) = ''/satellite-data''"
  shows "fetch w rq e st =
           Some (Returns
                   (\<lparr>res_status = 400, res_success = False, res_data = NoData,
                      res_source = None,
                      res_error = Some ''Latitude and longitude required''\<rparr>, st))
         \<and> handleWeather w (rq_searchParams rq) e st
             = (json_error ''Latitude and longitude required'' 400, st)
         \<and> handleSatelliteData w (rq_searchParams rq) st
             = (json_error ''Latitude and longitude required'' 400, st)"
  using assms
  by (auto simp add: fetch_def handleWeather_def handleSatelliteData_def json_error_def Let_def)

theorem missing_coordinates_rejected_witness:
  "fetch unreachable_world (get_request ''/api/weather/'' [(''lat'', ''12.5'')]) no_keys empty_state =
     Some (Returns
             (\<lparr>res_status = 400, res_success = False, res_data = NoData, res_source = None,
                res_error = Some ''Latitude and longitude required''\<rparr>, empty_state))"
  using missing_coordinates_rejected
          [of "get_request ''/api/weather/'' [(''lat'', ''12.5'')]" unreachable_world no_keys empty_state]
  by (simp add: get_request_def get_param_def normalize_path_def)


section \<open>The fire-weather index\<close>

text \<open>
  C8 (amended). On finite numbers the fire-weather index is
  \<open>min(100, (max(0, 100 - humidity) + max(0, temp - 20) + max(0, 30 - precipitation)) / 3)\<close>,
  and at temp = 30, humidity = 20, precipitation = 0 it is 40.
\<close>

theorem fire_weather_index_formula:
  "calculateFireWeatherIndex (Num temp) (Num humidity) (Num precipitation)
     = Num (min 100 ((max 0 (100 - humidity) + max 0 (temp - 20) + max 0 (30 - precipitation)) / 3))
   \<and> calculateFireWeatherIndex (Num 30) (Num 20) (Num 0) = Num 40"
  by (simp add: calculateFireWeatherIndex_def Let_def)

text \<open>The value at (30, 20, 0) is not within 0.01 of 36.67.\<close>

theorem fire_weather_index_counterexample:
  "\<not> in_range (36.67 - 0.01) (36.67 + 0.01) (calculateFireWeatherIndex (Num 30) (Num 20) (Num 0))"
  by (simp add: calculateFireWeatherIndex_def Let_def)

section \<open>The cache\<close>

text \<open>
  C5 (amended). The duration given to \<open>setCachedData\<close> is not stored; an entry is valid
  iff \<open>now - timestamp < d\<close> for the duration \<open>d\<close> given to \<open>getCachedData\<close>. So a read
  with \<open>d > 0\<close> at the time of the write returns the value, a read \<open>d\<close> or more after the
  write is a miss, and of two writes to a key the second one is read.
\<close>

theorem cache_validity_by_read_duration:
  "(0 < d \<longrightarrow> getCachedData (setCachedData c now k v t) now k d = Some v)
   \<and> (d \<le> now' - now \<longrightarrow> getCachedData (setCachedData c now k v t) now' k d = None)
   \<and> getCachedData (setCachedData c now k v t) now' k d
       = (if now' - now < d then Some v else None)
   \<and> getCachedData (setCachedData (setCachedData c n1 k v1 t1) n2 k v2 t2) now' k d
       = (if now' - n2 < d then Some v2 else None)"
  by (simp add: getCachedData_def setCachedData_def)

theorem cache_validity_witness:
  "getCachedData (setCachedData (Map.empty :: nat cache) 1000 ''k'' 7 600000) 1000 ''k'' 600000
     = Some 7
   \<and> getCachedData (setCachedData (Map.empty :: nat cache) 1000 ''k'' 7 600000) 601000 ''k'' 600000
     = None
   \<and> getCachedData (setCachedData (setCachedData (Map.empty :: nat cache) 1000 ''k'' 7 600000)
                        2000 ''k'' 8 600000) 2000 ''k'' 600000
     = Some 8"
  using cache_validity_by_read_duration
          [where d = 600000 and c = "Map.empty :: nat cache" and now = 1000 and k = "''k''"
             and v = 7 and t = 600000 and now' = 601000]
        cache_validity_by_read_duration
          [where d = 600000 and c = "Map.empty :: nat cache" and ?n1.0 = 1000 and k = "''k''"
             and ?v1.0 = 7 and ?t1.0 = 600000 and ?n2.0 = 2000 and ?v2.0 = 8 and ?t2.0 = 600000
             and now' = 2000]
  by simp

text \<open>
  An entry written with a time-to-live of 10 minutes is still returned 10 minutes later by
  \<open>getCachedData(key)\<close>, which reads with the default of 24 hours.
\<close>

theorem cache_ttl_of_set_counterexample:
  "getCachedData_default
     (setCachedData (Map.empty :: nat cache) 0 ''weather_live_1.00_2.00'' 7 (10 * 60 * 1000))
     (10 * 60 * 1000) ''weather_live_1.00_2.00'' = Some 7"
  by (simp add: getCachedData_default_def getCachedData_def setCachedData_def FOREST_DATA_def)

section \<open>Cache durations\<close>












section \<open>Confidence and percentage fields\<close>





lemma fire_weather_index_bounded:
  "in_range 0 100 (calculateFireWeatherIndex (Num t) (Num h) (Num p))"
  by (simp add: calculateFireWeatherIndex_def Let_def)






section \<open>The order of the routes in getForestAlerts\<close>

lemma fire_routes_append: "fire_routes (s @ t) = fire_routes s @ fire_routes t"
  by (simp add: fire_routes_def)

lemma fire_routes_Nil: "fire_routes [] = []"
  by (simp add: fire_routes_def)

lemma server_stage_routes:
  "fire_routes (snd (server_stage cfg w)) = (if hasNasaKey cfg then [] else [Proxy])"
  by (simp add: server_stage_def fire_routes_def split: thrown.splits)

lemma server_stage_with_key: "hasNasaKey cfg \<Longrightarrow> server_stage cfg w = (None, [])"
  by (simp add: server_stage_def)

lemma fire_stage_routes:
  "fire_routes (snd (fire_stage cfg w))
     = (if hasNasaKey cfg
        then (case aw_liveFire w of
                Returns fs \<Rightarrow> [Direct]
              | Throws msg \<Rightarrow> if noMock cfg then [Direct] else [Direct, Mock])
        else if noMock cfg then [] else [Mock])"
  by (simp add: fire_stage_def fire_routes_def split: thrown.splits)

lemma fire_stage_throws:
  "fst (fire_stage cfg w) = Throws msg \<Longrightarrow> noMock cfg"
  by (simp add: fire_stage_def split: thrown.splits if_splits)

lemma deforestation_stage_routes: "fire_routes (snd (deforestation_stage cfg w)) = []"
  by (simp add: deforestation_stage_def fire_routes_def Let_def split: thrown.splits)

lemma deforestation_stage_throws:
  "fst (deforestation_stage cfg w) = Throws msg \<Longrightarrow> noMock cfg"
  by (simp add: deforestation_stage_def Let_def split: thrown.splits if_splits)

lemma gather_alerts_routes:
  "fire_routes (snd (gather_alerts cfg w)) = fire_routes (snd (fire_stage cfg w))"
proof (cases "fire_stage cfg w")
  case f: (Pair rf tf)
  show ?thesis
  proof (cases "deforestation_stage cfg w")
    case d: (Pair rd td)
    have "fire_routes td = []"
      using deforestation_stage_routes[of cfg w] d by simp
    with f d show ?thesis
      by (simp add: gather_alerts_def fire_routes_append fire_routes_def Let_def
            split: thrown.splits)
  qed
qed

lemma gather_alerts_throws:
  assumes "fst (gather_alerts cfg w) = Throws msg"
  shows "noMock cfg"
proof (cases "fire_stage cfg w")
  case f: (Pair rf tf)
  show ?thesis
  proof (cases "deforestation_stage cfg w")
    case d: (Pair rd td)
    from assms f d have "rf = Throws msg \<or> rd = Throws msg"
      by (simp add: gather_alerts_def Let_def split: thrown.splits if_splits)
    then show ?thesis
      using fire_stage_throws[of cfg w msg] deforestation_stage_throws[of cfg w msg] f d
      by auto
  qed
qed

text \<open>
  The routes tried for the fire alerts by one call: those of the server stage, and on a
  cache miss those of the fire stage.
\<close>

lemma getForestAlerts_routes:
  "fire_routes (fst (snd (Enhanced_getForestAlerts cfg w c)))
     = fire_routes (snd (server_stage cfg w))
       @ (if fst (server_stage cfg w) = None
             \<and> getCachedData_default c (aw_now w) ''forest_alerts_combined'' = None
          then fire_routes (snd (fire_stage cfg w)) else [])"
proof (cases "server_stage cfg w")
  case s: (Pair served t0)
  show ?thesis
  proof (cases "gather_alerts cfg w")
    case g: (Pair r t)
    have t: "fire_routes t = fire_routes (snd (fire_stage cfg w))"
      using gather_alerts_routes[of cfg w] g by simp
    have m: "r = Throws msg \<Longrightarrow> noMock cfg" for msg
      using gather_alerts_throws[of cfg w msg] g by simp
    from s g t m show ?thesis
      by (auto simp add: Enhanced_getForestAlerts_def fire_routes_append Let_def
            split: option.splits thrown.splits)
  qed
qed

text \<open>
  C4 (amended). One call of \<open>getForestAlerts\<close> tries at most one live route for the fire
  alerts: Direct when a NASA key is configured, and otherwise Proxy, which then comes
  first. Mock is tried only after that live route, and never in live-only mode. When the
  Direct attempt fails with mocks allowed, the next and last attempt is Mock: the Proxy
  is not tried.
\<close>

theorem fire_routes_of_getForestAlerts:
  "fire_routes (fst (snd (Enhanced_getForestAlerts cfg w c)))
     \<in> set [[], [Direct], [Direct, Mock], [Proxy], [Proxy, Mock]]
   \<and> (hasNasaKey cfg \<longrightarrow> Proxy \<notin> set (fire_routes (fst (snd (Enhanced_getForestAlerts cfg w c)))))
   \<and> (\<not> hasNasaKey cfg \<longrightarrow>
        Direct \<notin> set (fire_routes (fst (snd (Enhanced_getForestAlerts cfg w c))))
        \<and> hd (fire_routes (fst (snd (Enhanced_getForestAlerts cfg w c)))) = Proxy)
   \<and> (noMock cfg \<longrightarrow> Mock \<notin> set (fire_routes (fst (snd (Enhanced_getForestAlerts cfg w c)))))
   \<and> (hasNasaKey cfg \<and> \<not> noMock cfg \<and> aw_liveFire w = Throws msg
        \<and> getCachedData_default c (aw_now w) ''forest_alerts_combined'' = None \<longrightarrow>
        fire_routes (fst (snd (Enhanced_getForestAlerts cfg w c))) = [Direct, Mock])"
  by (auto simp add: getForestAlerts_routes server_stage_routes fire_stage_routes
        server_stage_with_key fire_routes_Nil split: thrown.splits)

theorem fire_routes_witness:
  "fire_routes (fst (snd (Enhanced_getForestAlerts key_mocks_allowed direct_fire_fails Map.empty)))
     = [Direct, Mock]
   \<and> Proxy \<notin> set (fire_routes
                    (fst (snd (Enhanced_getForestAlerts key_mocks_allowed direct_fire_fails Map.empty))))"
  using fire_routes_of_getForestAlerts
          [where cfg = key_mocks_allowed and w = direct_fire_fails and c = Map.empty
             and msg = "''All FIRMS datasets returned no data''"]
  by (simp add: key_mocks_allowed_def direct_fire_fails_def getCachedData_default_def
        getCachedData_def)

text \<open>
  With a NASA key and mocks allowed, the direct FIRMS call fails while the server is
  healthy: the calls made are the direct one, the mock fire alerts and the direct
  deforestation call. After Direct comes Mock, and the Proxy is never tried.
\<close>

theorem direct_then_mock_counterexample:
  "fst (snd (Enhanced_getForestAlerts key_mocks_allowed direct_fire_fails Map.empty))
     = [LiveFire, MockFire, LiveDeforestation]
   \<and> fire_routes [LiveFire, MockFire, LiveDeforestation] = [Direct, Mock]"
  by (simp add: Enhanced_getForestAlerts_def server_stage_def gather_alerts_def fire_stage_def
        deforestation_stage_def key_mocks_allowed_def direct_fire_fails_def fire_routes_def
        getCachedData_default_def getCachedData_def getMockFireAlerts_def Let_def)


section \<open>Live-only mode in the other handlers\<close>

text \<open>
  With \<open>no_mock=1\<close> and no cached reply, the fire, deforestation and weather handlers answer
  from the upstream or with an error, never from a mock generator.
\<close>

lemma handleFireAlerts_live_only:
  assumes "no_mock url"
    and "wcache st (FireKey (str_or (get_param url ''region'') (str_or (get_param url ''area'') ''world'')
                             @ ''/'' @ str_or (get_param url ''days'') ''1'')) = None"
  shows "res_source (fst (handleFireAlerts w url e st)) \<noteq> Some ''mock''
         \<and> res_source (fst (handleFireAlerts w url e st)) \<noteq> Some ''mock-fallback''"
  using assms
  by (auto simp add: handleFireAlerts_def Let_def json_error_def json_data_def
        split: prod.splits sum.splits)

lemma handleDeforestationAlerts_live_only:
  assumes "no_mock url"
    and "wcache st (DeforestKey (str_or (get_param url ''region'') ''BRA'')
                      (parseInt (str_or (get_param url ''days'') ''90'')) (wl_today w)
                      (parseInt (str_or (get_param url ''limit'') ''50''))) = None"
    and "handleDeforestationAlerts w url st = Returns (res, st')"
  shows "res_source res \<noteq> Some ''mock-fallback''"
  using assms
  by (auto simp add: handleDeforestationAlerts_def Let_def json_error_def json_data_def
        split: thrown.splits if_splits)

lemma handleWeather_live_only:
  assumes "no_mock url"
    and "get_param url ''lat'' = Some lat" and "get_param url ''lng'' = Some lng"
    and "wcache st (WeatherKey (lat @ ''/'' @ lng)) = None"
  shows "res_source (fst (handleWeather w url e st)) \<noteq> Some ''mock''
         \<and> res_source (fst (handleWeather w url e st)) \<noteq> Some ''mock-fallback''"
  using assms
  by (auto simp add: handleWeather_def Let_def json_error_def json_data_def
        split: thrown.splits)

text \<open>In live-only mode the biodiversity handler returns the live records, cut to the limit.\<close>

lemma handleBiodiversity_live_only:
  assumes "no_mock url"
    and "wcache st (BiodiversityKey (str_or (get_param url ''region'') ''global'')
                        (parseInt (str_or (get_param url ''limit'') ''20''))) = None"
    and "gbif_loop w speciesQueries [] st = (live, st')"
  shows "\<exists>res. handleBiodiversity w url st = Some (res, cache_put
                 (BiodiversityKey (str_or (get_param url ''region'') ''global'')
                        (parseInt (str_or (get_param url ''limit'') ''20''))) res st')
           \<and> res_data res = SpeciesList
                 (slice (Num 0) (parseInt (str_or (get_param url ''limit'') ''20'')) live)"
  using assms
  by (simp add: handleBiodiversity_def Let_def backfill_live_only json_data_def)

end
